theory Spec2Isabelle
  imports Main
begin

section \<open>USBCameraModule: the native camera bridge\<close>

text \<open>
  A shallow embedding of the Java class \<open>USBCameraModule\<close> (the React Native module that
  talks to the Android camera2 platform). Every \<open>@ReactMethod\<close> and every hardware callback
  registered by the class is a function from the module's state to the new state and to
  what happens to the promise of the call. The Android platform is not part of the class:
  how it answers a call (an exception, a null, a granted permission) is an argument.
\<close>

subsection \<open>Values crossing the bridge\<close>

text \<open>
  \<open>WritableMap\<close> and \<open>WritableArray\<close>: a map lists its entries in the order of the
  \<open>put\<close> calls (the class never writes a key twice).
\<close>

datatype jsval =
    JString string
  | JInt int
  | JBool bool
  | JArray "jsval list"
  | JMap "(string \<times> jsval) list"

fun entries :: "jsval \<Rightarrow> (string \<times> jsval) list" where
  "entries (JMap kvs) = kvs"
| "entries v = []"

definition getKey :: "string \<Rightarrow> jsval \<Rightarrow> jsval option" where
  "getKey k v = map_of (entries v) k"

text \<open>
  The exceptions a platform call can throw, as the class distinguishes them: its handlers
  name \<open>CameraAccessException\<close> (checked, declared by the camera2 calls) and, in
  \<open>getAvailableCameras\<close> only, \<open>Exception\<close>; every unchecked exception of a platform
  call is \<open>RuntimeException\<close> here. Each carries its \<open>getMessage()\<close>.
\<close>

datatype exn =
    CameraAccessException string
  | RuntimeException string

fun getMessage :: "exn \<Rightarrow> string" where
  "getMessage (CameraAccessException msg) = msg"
| "getMessage (RuntimeException msg) = msg"

text \<open>
  What can leave a method of the class uncaught: an exception thrown by a platform call,
  or the \<open>NullPointerException\<close> of the class's own dereference of a null field.
\<close>

datatype fault =
    NullPointerException
  | Thrown exn

text \<open>
  What a call or a callback does to the promise it holds: \<open>promise.resolve\<close>,
  \<open>promise.reject(code, message)\<close>, nothing (the promise stays pending), or an exception
  that no handler of the class catches and that leaves the method.
\<close>

datatype outcome =
    Resolved jsval
  | Rejected string string
  | Pending
  | Uncaught fault

subsection \<open>The platform's camera service, as \<open>getAvailableCameras\<close> queries it\<close>

type_synonym Size = "int \<times> int"

text \<open>
  \<open>characteristics.get(LENS_FACING)\<close> may be null; so may the stream configuration map,
  and so may \<open>map.getOutputSizes(ImageFormat.JPEG)\<close>.
\<close>

record CameraCharacteristics =
  LENS_FACING :: "int option"
  SCALER_STREAM_CONFIGURATION_MAP :: "Size list option option"

record CameraManager =
  getCameraIdList :: "exn + string list"
  getCameraCharacteristics :: "string \<Rightarrow> exn + CameraCharacteristics"

text \<open>The values of the camera2 constants (Android SDK, \<open>CameraMetadata\<close>).\<close>

definition LENS_FACING_FRONT :: int where "LENS_FACING_FRONT = 0"
definition LENS_FACING_BACK :: int where "LENS_FACING_BACK = 1"
definition LENS_FACING_EXTERNAL :: int where "LENS_FACING_EXTERNAL = 2"

text \<open>
  Lines 75-99: \<open>cameraType\<close> and \<open>isUSBCamera\<close> from the facing property. The
  \<open>switch\<close> has no default: another value keeps the initial \<open>"unknown"\<close>, \<open>false\<close>.
\<close>

definition facingType :: "int option \<Rightarrow> string \<times> bool" where
  "facingType facing =
     (case facing of
        Some f \<Rightarrow>
          if f = LENS_FACING_FRONT then (''front'', False)
          else if f = LENS_FACING_BACK then (''back'', False)
          else if f = LENS_FACING_EXTERNAL then (''external'', True)
          else (''unknown'', False)
      | None \<Rightarrow> (''external'', True))"

text \<open>Lines 102-115: the JPEG output sizes, empty when the map or the sizes are null.\<close>

definition resolutionMap :: "Size \<Rightarrow> jsval" where
  "resolutionMap sz = JMap [(''width'', JInt (fst sz)), (''height'', JInt (snd sz))]"

definition resolutionsOf :: "CameraCharacteristics \<Rightarrow> jsval list" where
  "resolutionsOf characteristics =
     (case SCALER_STREAM_CONFIGURATION_MAP characteristics of
        None \<Rightarrow> []
      | Some None \<Rightarrow> []
      | Some (Some sizes) \<Rightarrow> map resolutionMap sizes)"

text \<open>Lines 117-129: the \<open>cameraInfo\<close> map of one camera.\<close>

definition cameraInfo :: "string \<Rightarrow> CameraCharacteristics \<Rightarrow> jsval" where
  "cameraInfo cameraId characteristics =
     (let cameraType = fst (facingType (LENS_FACING characteristics));
          isUSBCamera = snd (facingType (LENS_FACING characteristics))
      in JMap ([(''id'', JString cameraId),
                (''type'', JString cameraType),
                (''isUSBCamera'', JBool isUSBCamera),
                (''resolutions'', JArray (resolutionsOf characteristics))] @
               (if isUSBCamera
                then [(''name'', JString ''USB Digital Microscope''),
                      (''description'', JString ''External USB Camera Device'')]
                else [(''name'', JString (''Phone Camera ('' @ cameraType @ '')'')),
                      (''description'', JString (''Built-in '' @ cameraType @ '' camera''))])))"

text \<open>
  Lines 69-136: the loop over the camera ids, \<open>cameras\<close> being the array built so far.
  The handler inside the loop catches \<open>CameraAccessException\<close> only and goes on with the
  next id; any other exception leaves the loop.
\<close>

fun collectCameras :: "CameraManager \<Rightarrow> string list \<Rightarrow> jsval list \<Rightarrow> exn + jsval list" where
  "collectCameras cm [] cameras = Inr cameras"
| "collectCameras cm (cameraId # rest) cameras =
     (case getCameraCharacteristics cm cameraId of
        Inl (CameraAccessException msg) \<Rightarrow> collectCameras cm rest cameras
      | Inl e \<Rightarrow> Inl e
      | Inr characteristics \<Rightarrow>
          collectCameras cm rest (cameras @ [cameraInfo cameraId characteristics]))"

text \<open>Lines 141-147: the two handlers around the whole method body.\<close>

fun cameraListFailed :: "exn \<Rightarrow> outcome" where
  "cameraListFailed (CameraAccessException msg) =
     Rejected ''CAMERA_ERROR'' (''Failed to get camera list: '' @ msg)"
| "cameraListFailed e = Rejected ''UNKNOWN_ERROR'' (''Unexpected error: '' @ getMessage e)"

subsection \<open>The module's state\<close>

text \<open>
  The objects the platform hands over are opaque handles. An \<open>ImageReader\<close> is the
  \<open>newInstance(width, height, ImageFormat.JPEG, 1)\<close> it was made with, a \<open>Handler\<close> the
  thread whose looper it posts to. An \<open>Image\<close> stands for the acquired frame by the text
  \<open>Base64.encodeToString\<close> gives for the bytes of its first plane.
\<close>

datatype CameraDevice = CameraDevice nat
datatype CameraCaptureSession = CameraCaptureSession nat
datatype ImageReader = ImageReader int int
datatype HandlerThread = HandlerThread nat
datatype Handler = Handler HandlerThread
datatype Image = Image string

datatype template = TEMPLATE_PREVIEW | TEMPLATE_STILL_CAPTURE

text \<open>The calls on platform objects that returned normally, in the order they were made.\<close>

datatype platform_call =
    HandlerThread_start HandlerThread
  | HandlerThread_quitSafely HandlerThread
  | CameraManager_openCamera string "Handler option"
  | CameraDevice_close CameraDevice
  | ImageReader_newInstance int int
  | ImageReader_setOnImageAvailableListener ImageReader "Handler option"
  | ImageReader_close ImageReader
  | CameraDevice_createCaptureSession CameraDevice ImageReader "Handler option"
  | CameraDevice_createCaptureRequest CameraDevice template
  | CameraCaptureSession_setRepeatingRequest CameraCaptureSession ImageReader "Handler option"
  | CameraCaptureSession_capture CameraCaptureSession ImageReader "Handler option"
  | CameraCaptureSession_close CameraCaptureSession
  | Image_close Image

text \<open>
  The five mutable fields of the class (lines 45-49; \<open>None\<close> is \<open>null\<close>), and what the
  module has done to the outside: the events passed to \<open>sendEvent\<close>, the platform calls,
  and the number of \<open>HandlerThread\<close> objects constructed so far (the next one's identity).
\<close>

record module =
  cameraDevice :: "CameraDevice option"
  captureSession :: "CameraCaptureSession option"
  imageReader :: "ImageReader option"
  backgroundThread :: "HandlerThread option"
  backgroundHandler :: "Handler option"
  events :: "(string \<times> jsval) list"
  calls :: "platform_call list"
  threads :: nat

definition initial :: module where
  "initial = \<lparr> cameraDevice = None, captureSession = None, imageReader = None,
               backgroundThread = None, backgroundHandler = None,
               events = [], calls = [], threads = 0 \<rparr>"

text \<open>
  How the platform answers during one call of the module: whether the camera permission
  is granted, which of the camera2 calls throws (and what), and whether
  \<open>backgroundThread.join()\<close> is interrupted.
\<close>

record platform =
  permissionGranted :: bool
  openCameraThrows :: "exn option"
  newInstanceThrows :: "exn option"
  createCaptureSessionThrows :: "exn option"
  createCaptureRequestThrows :: "exn option"
  setRepeatingRequestThrows :: "exn option"
  captureThrows :: "exn option"
  joinInterrupted :: bool

definition normal :: platform where
  "normal = \<lparr> permissionGranted = True, openCameraThrows = None, newInstanceThrows = None,
              createCaptureSessionThrows = None, createCaptureRequestThrows = None,
              setRepeatingRequestThrows = None, captureThrows = None,
              joinInterrupted = False \<rparr>"

definition sendEvent :: "string \<Rightarrow> jsval \<Rightarrow> module \<Rightarrow> module" where
  "sendEvent eventName params m = m\<lparr>events := events m @ [(eventName, params)]\<rparr>"

definition call :: "platform_call \<Rightarrow> module \<Rightarrow> module" where
  "call c m = m\<lparr>calls := calls m @ [c]\<rparr>"

text \<open>
  A \<open>catch (CameraAccessException e)\<close> that rejects with \<open>code\<close> and
  \<open>prefix + e.getMessage()\<close>; every other exception goes through it.
\<close>

fun catchCameraAccess :: "string \<Rightarrow> string \<Rightarrow> exn \<Rightarrow> outcome" where
  "catchCameraAccess code prefix (CameraAccessException msg) = Rejected code (prefix @ msg)"
| "catchCameraAccess code prefix e = Uncaught (Thrown e)"

subsection \<open>\<open>getAvailableCameras\<close> (lines 62-148)\<close>

definition getAvailableCameras :: "CameraManager \<Rightarrow> module \<Rightarrow> module \<times> outcome" where
  "getAvailableCameras cm m =
     (case getCameraIdList cm of
        Inl e \<Rightarrow> (m, cameraListFailed e)
      | Inr cameraIds \<Rightarrow>
          (case collectCameras cm cameraIds [] of
             Inl e \<Rightarrow> (m, cameraListFailed e)
           | Inr cameras \<Rightarrow> (m, Resolved (JArray cameras))))"

subsection \<open>The background thread (lines 339-356)\<close>

definition startBackgroundThread :: "module \<Rightarrow> module" where
  "startBackgroundThread m =
     (let t = HandlerThread (threads m)
      in call (HandlerThread_start t)
           (m\<lparr>backgroundThread := Some t, backgroundHandler := Some (Handler t),
              threads := Suc (threads m)\<rparr>))"

text \<open>
  When \<open>join()\<close> throws \<open>InterruptedException\<close> the two fields keep their values (the
  assignments are inside the \<open>try\<close>, after the \<open>join\<close>).
\<close>

definition stopBackgroundThread :: "platform \<Rightarrow> module \<Rightarrow> module" where
  "stopBackgroundThread p m =
     (case backgroundThread m of
        None \<Rightarrow> m
      | Some t \<Rightarrow>
          (let m1 = call (HandlerThread_quitSafely t) m
           in if joinInterrupted p then m1
              else m1\<lparr>backgroundThread := None, backgroundHandler := None\<rparr>))"

subsection \<open>\<open>openCamera\<close> and its \<open>CameraDevice.StateCallback\<close> (lines 150-208)\<close>

definition openCamera :: "platform \<Rightarrow> string \<Rightarrow> module \<Rightarrow> module \<times> outcome" where
  "openCamera p cameraId m =
     (if \<not> permissionGranted p
      then (m, Rejected ''PERMISSION_DENIED'' ''Camera permission not granted'')
      else
        (let m1 = startBackgroundThread m
         in case openCameraThrows p of
              Some e \<Rightarrow> (m1, catchCameraAccess ''CAMERA_ERROR'' ''Failed to open camera: '' e)
            | None \<Rightarrow>
                (call (CameraManager_openCamera cameraId (backgroundHandler m1)) m1, Pending)))"

text \<open>The callbacks close over \<open>cameraId\<close> and over the promise of \<open>openCamera\<close>.\<close>

definition onOpened :: "string \<Rightarrow> CameraDevice \<Rightarrow> module \<Rightarrow> module \<times> outcome" where
  "onOpened cameraId camera m =
     (sendEvent ''USBCameraEvent''
        (JMap [(''cameraId'', JString cameraId), (''status'', JString ''opened'')])
        (m\<lparr>cameraDevice := Some camera\<rparr>),
      Resolved (JString ''Camera opened successfully''))"

definition onDisconnected :: "string \<Rightarrow> CameraDevice \<Rightarrow> module \<Rightarrow> module \<times> outcome" where
  "onDisconnected cameraId camera m =
     (sendEvent ''USBCameraEvent''
        (JMap [(''cameraId'', JString cameraId), (''status'', JString ''disconnected'')])
        ((call (CameraDevice_close camera) m)\<lparr>cameraDevice := None\<rparr>),
      Pending)"

definition onError :: "string \<Rightarrow> CameraDevice \<Rightarrow> int \<Rightarrow> module \<Rightarrow> module \<times> outcome" where
  "onError cameraId camera error m =
     (sendEvent ''USBCameraEvent''
        (JMap [(''cameraId'', JString cameraId), (''status'', JString ''error''),
               (''errorCode'', JInt error)])
        ((call (CameraDevice_close camera) m)\<lparr>cameraDevice := None\<rparr>),
      Pending)"

subsection \<open>\<open>startPreview\<close>, its image listener and its session callback (lines 210-287)\<close>

text \<open>
  The only check is \<open>cameraDevice == null\<close>; \<open>width\<close> and \<open>height\<close> go to
  \<open>ImageReader.newInstance\<close> as they come. The \<open>imageReader\<close> field is assigned before
  \<open>createCaptureSession\<close> is called, so it keeps the new reader when that call throws.
\<close>

definition startPreview :: "platform \<Rightarrow> int \<Rightarrow> int \<Rightarrow> module \<Rightarrow> module \<times> outcome" where
  "startPreview p width height m =
     (case cameraDevice m of
        None \<Rightarrow> (m, Rejected ''NO_CAMERA'' ''No camera is currently open'')
      | Some device \<Rightarrow>
          (case newInstanceThrows p of
             Some e \<Rightarrow> (m, catchCameraAccess ''CAMERA_ERROR'' ''Error starting preview: '' e)
           | None \<Rightarrow>
               (let reader = ImageReader width height;
                    m1 = call (ImageReader_setOnImageAvailableListener reader (backgroundHandler m))
                           (call (ImageReader_newInstance width height)
                              (m\<lparr>imageReader := Some reader\<rparr>))
                in case createCaptureSessionThrows p of
                     Some e \<Rightarrow>
                       (m1, catchCameraAccess ''CAMERA_ERROR'' ''Error starting preview: '' e)
                   | None \<Rightarrow>
                       (call (CameraDevice_createCaptureSession device reader (backgroundHandler m1))
                          m1,
                        Pending))))"

text \<open>
  Lines 224-244: the listener runs for every frame the reader announces, whatever the
  state of the module; \<open>acquireLatestImage()\<close> may return null.
\<close>

definition imageCapturedEvent :: "Image \<Rightarrow> string \<times> jsval" where
  "imageCapturedEvent img =
     (case img of Image base64Image \<Rightarrow>
        (''USBCameraImageCaptured'',
         JMap [(''imageData'', JString (''data:image/jpeg;base64,'' @ base64Image)),
               (''source'', JString ''usb_microscope'')]))"

definition onImageAvailable :: "Image option \<Rightarrow> module \<Rightarrow> module \<times> outcome" where
  "onImageAvailable acquired m =
     (case acquired of
        None \<Rightarrow> (m, Pending)
      | Some img \<Rightarrow>
          (call (Image_close img)
             (sendEvent (fst (imageCapturedEvent img)) (snd (imageCapturedEvent img)) m),
           Pending))"

text \<open>
  Lines 252-274: \<open>captureSession\<close> is assigned first; the \<open>try\<close> then dereferences the
  fields \<open>cameraDevice\<close> and \<open>imageReader\<close>, and its handler catches
  \<open>CameraAccessException\<close> only.
\<close>

definition onConfigured :: "platform \<Rightarrow> CameraCaptureSession \<Rightarrow> module \<Rightarrow> module \<times> outcome" where
  "onConfigured p session m =
     (let m1 = m\<lparr>captureSession := Some session\<rparr>
      in case cameraDevice m1 of
           None \<Rightarrow> (m1, Uncaught NullPointerException)
         | Some device \<Rightarrow>
             (case createCaptureRequestThrows p of
                Some e \<Rightarrow>
                  (m1, catchCameraAccess ''PREVIEW_ERROR'' ''Failed to start preview: '' e)
              | None \<Rightarrow>
                  (let m2 = call (CameraDevice_createCaptureRequest device TEMPLATE_PREVIEW) m1
                   in case imageReader m2 of
                        None \<Rightarrow> (m2, Uncaught NullPointerException)
                      | Some reader \<Rightarrow>
                          (case setRepeatingRequestThrows p of
                             Some e \<Rightarrow>
                               (m2, catchCameraAccess ''PREVIEW_ERROR''
                                      ''Failed to start preview: '' e)
                           | None \<Rightarrow>
                               (sendEvent ''USBCameraEvent''
                                  (JMap [(''status'', JString ''preview_started'')])
                                  (call (CameraCaptureSession_setRepeatingRequest session reader
                                           (backgroundHandler m2)) m2),
                                Resolved (JString ''Preview started successfully''))))))"

definition onConfigureFailed :: "CameraCaptureSession \<Rightarrow> module \<Rightarrow> module \<times> outcome" where
  "onConfigureFailed session m =
     (m, Rejected ''SESSION_ERROR'' ''Failed to configure capture session'')"

subsection \<open>\<open>captureImage\<close> (lines 289-309)\<close>

text \<open>
  The guard looks at \<open>captureSession\<close> only. \<open>cameraDevice.createCaptureRequest\<close> and
  \<open>imageReader.getSurface()\<close> dereference the two other fields.
\<close>

definition captureImage :: "platform \<Rightarrow> module \<Rightarrow> module \<times> outcome" where
  "captureImage p m =
     (case captureSession m of
        None \<Rightarrow> (m, Rejected ''NO_SESSION'' ''No active capture session'')
      | Some session \<Rightarrow>
          (case cameraDevice m of
             None \<Rightarrow> (m, Uncaught NullPointerException)
           | Some device \<Rightarrow>
               (case createCaptureRequestThrows p of
                  Some e \<Rightarrow>
                    (m, catchCameraAccess ''CAPTURE_ERROR'' ''Failed to capture image: '' e)
                | None \<Rightarrow>
                    (let m1 = call (CameraDevice_createCaptureRequest device
                                      TEMPLATE_STILL_CAPTURE) m
                     in case imageReader m1 of
                          None \<Rightarrow> (m1, Uncaught NullPointerException)
                        | Some reader \<Rightarrow>
                            (case captureThrows p of
                               Some e \<Rightarrow>
                                 (m1, catchCameraAccess ''CAPTURE_ERROR''
                                        ''Failed to capture image: '' e)
                             | None \<Rightarrow>
                                 (call (CameraCaptureSession_capture session reader
                                          (backgroundHandler m1)) m1,
                                  Resolved (JString ''Image capture initiated'')))))))"

subsection \<open>\<open>closeCamera\<close> (lines 311-337)\<close>

definition closeSession :: "module \<Rightarrow> module" where
  "closeSession m =
     (case captureSession m of
        None \<Rightarrow> m
      | Some session \<Rightarrow> (call (CameraCaptureSession_close session) m)\<lparr>captureSession := None\<rparr>)"

definition closeDevice :: "module \<Rightarrow> module" where
  "closeDevice m =
     (case cameraDevice m of
        None \<Rightarrow> m
      | Some device \<Rightarrow> (call (CameraDevice_close device) m)\<lparr>cameraDevice := None\<rparr>)"

definition closeReader :: "module \<Rightarrow> module" where
  "closeReader m =
     (case imageReader m of
        None \<Rightarrow> m
      | Some reader \<Rightarrow> (call (ImageReader_close reader) m)\<lparr>imageReader := None\<rparr>)"

definition closedEvent :: "string \<times> jsval" where
  "closedEvent = (''USBCameraEvent'', JMap [(''status'', JString ''closed'')])"

definition closeCamera :: "platform \<Rightarrow> module \<Rightarrow> module \<times> outcome" where
  "closeCamera p m =
     (sendEvent (fst closedEvent) (snd closedEvent)
        (stopBackgroundThread p (closeReader (closeDevice (closeSession m)))),
      Resolved (JString ''Camera closed successfully''))"

subsection \<open>Sequences of calls and callbacks\<close>

text \<open>
  What can happen to the module: the host calls a method, or the platform runs one of the
  callbacks the module registered (with the values the callback closed over).
\<close>

datatype action =
    OpenCamera string
  | OnOpened string CameraDevice
  | OnDisconnected string CameraDevice
  | OnError string CameraDevice int
  | StartPreview int int
  | OnConfigured CameraCaptureSession
  | OnConfigureFailed CameraCaptureSession
  | OnImageAvailable "Image option"
  | CaptureImage
  | CloseCamera

fun step :: "platform \<Rightarrow> action \<Rightarrow> module \<Rightarrow> module \<times> outcome" where
  "step p (OpenCamera cameraId) m = openCamera p cameraId m"
| "step p (OnOpened cameraId camera) m = onOpened cameraId camera m"
| "step p (OnDisconnected cameraId camera) m = onDisconnected cameraId camera m"
| "step p (OnError cameraId camera error) m = onError cameraId camera error m"
| "step p (StartPreview width height) m = startPreview p width height m"
| "step p (OnConfigured session) m = onConfigured p session m"
| "step p (OnConfigureFailed session) m = onConfigureFailed session m"
| "step p (OnImageAvailable acquired) m = onImageAvailable acquired m"
| "step p CaptureImage m = captureImage p m"
| "step p CloseCamera m = closeCamera p m"

text \<open>
  A run on a platform that answers \<open>normal\<close>ly throughout; it yields the final state and
  the outcome of every step. An exception that leaves the module ends the run.
\<close>

fun run :: "action list \<Rightarrow> module \<Rightarrow> module \<times> outcome list" where
  "run [] m = (m, [])"
| "run (a # rest) m =
     (case step normal a m of
        (m1, Uncaught f) \<Rightarrow> (m1, [Uncaught f])
      | (m1, out) \<Rightarrow> (case run rest m1 of (m2, outs) \<Rightarrow> (m2, out # outs)))"

text \<open>The events of one name among those sent, e.g. the captured images.\<close>

definition eventsNamed :: "string \<Rightarrow> module \<Rightarrow> (string \<times> jsval) list" where
  "eventsNamed name m = filter (\<lambda>e. fst e = name) (events m)"

definition statusEvents :: "string \<Rightarrow> module \<Rightarrow> (string \<times> jsval) list" where
  "statusEvents status m =
     filter (\<lambda>e. fst e = ''USBCameraEvent'' \<and> getKey ''status'' (snd e) = Some (JString status))
       (events m)"

subsection \<open>Vocabulary of the properties\<close>

text \<open>The exceptions the handler inside the enumeration loop catches.\<close>

fun isCameraAccess :: "exn \<Rightarrow> bool" where
  "isCameraAccess (CameraAccessException msg) = True"
| "isCameraAccess e = False"

text \<open>A characteristics query whose exception the loop's handler does not catch.\<close>

definition queryEscapes :: "CameraManager \<Rightarrow> string \<Rightarrow> bool" where
  "queryEscapes cm cameraId =
     (case getCameraCharacteristics cm cameraId of
        Inl e \<Rightarrow> \<not> isCameraAccess e
      | Inr characteristics \<Rightarrow> False)"

text \<open>
  The descriptors of the cameras whose characteristics query returns, in the order of the
  ids: what the enumeration is expected to deliver when faulty cameras are skipped.
\<close>

definition described :: "CameraManager \<Rightarrow> string list \<Rightarrow> jsval list" where
  "described cm cameraIds =
     concat (map (\<lambda>cameraId.
        case getCameraCharacteristics cm cameraId of
          Inl e \<Rightarrow> []
        | Inr characteristics \<Rightarrow> [cameraInfo cameraId characteristics]) cameraIds)"

subsection \<open>Scenarios\<close>

text \<open>
  Scenario A of the specification: a rear camera and a camera without facing property.
  \<open>unplugged\<close> has a camera whose query throws \<open>CameraAccessException\<close>, \<open>vanished\<close> one
  whose id the platform no longer knows (\<open>IllegalArgumentException\<close>, unchecked).
\<close>

definition rearCamera :: CameraCharacteristics where
  "rearCamera = \<lparr> LENS_FACING = Some LENS_FACING_BACK,
                  SCALER_STREAM_CONFIGURATION_MAP = Some (Some [(1920, 1080), (640, 480)]) \<rparr>"

definition microscope :: CameraCharacteristics where
  "microscope = \<lparr> LENS_FACING = None,
                  SCALER_STREAM_CONFIGURATION_MAP = Some (Some [(640, 480)]) \<rparr>"

definition scenarioA :: CameraManager where
  "scenarioA = \<lparr> getCameraIdList = Inr [''0'', ''1''],
                 getCameraCharacteristics =
                   (\<lambda>cameraId. if cameraId = ''0'' then Inr rearCamera else Inr microscope) \<rparr>"

definition unplugged :: CameraManager where
  "unplugged = \<lparr> getCameraIdList = Inr [''0'', ''1'', ''2''],
                 getCameraCharacteristics =
                   (\<lambda>cameraId. if cameraId = ''0'' then Inr rearCamera
                      else if cameraId = ''1'' then Inl (CameraAccessException ''CAMERA_DISCONNECTED'')
                      else Inr microscope) \<rparr>"

definition vanished :: CameraManager where
  "vanished = \<lparr> getCameraIdList = Inr [''0'', ''1''],
                 getCameraCharacteristics =
                   (\<lambda>cameraId. if cameraId = ''0'' then Inr rearCamera
                      else Inl (RuntimeException ''IllegalArgumentException'')) \<rparr>"

text \<open>A session brought to the running preview, as the host does it (scenario B).\<close>

definition previewing :: "action list" where
  "previewing =
     [OpenCamera ''cam-external-1'', OnOpened ''cam-external-1'' (CameraDevice 1),
      StartPreview 1920 1080, OnConfigured (CameraCaptureSession 1)]"

text \<open>The platform on which \<open>backgroundThread.join()\<close> is interrupted.\<close>

definition interrupting :: platform where
  "interrupting = normal\<lparr>joinInterrupted := True\<rparr>"

text \<open>A platform whose camera service does not answer the listing of the ids.\<close>

definition serviceDown :: CameraManager where
  "serviceDown =
     \<lparr> getCameraIdList = Inl (CameraAccessException ''CAMERA_DISCONNECTED''),
       getCameraCharacteristics =
         (\<lambda>cameraId. Inl (CameraAccessException ''CAMERA_DISCONNECTED'')) \<rparr>"

text \<open>The state of the running preview.\<close>

definition livePreview :: module where
  "livePreview = fst (run previewing initial)"

text \<open>Scenario C: a first camera opened and acknowledged by the platform.\<close>

definition opened :: "action list" where
  "opened = [OpenCamera ''cam-1'', OnOpened ''cam-1'' (CameraDevice 1)]"

definition disconnectedEvent :: "string \<Rightarrow> string \<times> jsval" where
  "disconnectedEvent cameraId =
     (''USBCameraEvent'',
      JMap [(''cameraId'', JString cameraId), (''status'', JString ''disconnected'')])"

section \<open>Properties\<close>

subsection \<open>Enumeration\<close>

lemma facingType_external:
  "(fst (facingType facing) = ''external'') = (facing = None \<or> facing = Some LENS_FACING_EXTERNAL)"
  by (simp add: facingType_def LENS_FACING_FRONT_def LENS_FACING_BACK_def
        LENS_FACING_EXTERNAL_def split: option.split)

lemma facingType_usb:
  "snd (facingType facing) = (facing = None \<or> facing = Some LENS_FACING_EXTERNAL)"
  by (simp add: facingType_def LENS_FACING_FRONT_def LENS_FACING_BACK_def
        LENS_FACING_EXTERNAL_def split: option.split)

lemma cameraInfo_type:
  "getKey ''type'' (cameraInfo cameraId ch) = Some (JString (fst (facingType (LENS_FACING ch))))"
  by (simp add: getKey_def cameraInfo_def Let_def)

lemma cameraInfo_isUSBCamera:
  "getKey ''isUSBCamera'' (cameraInfo cameraId ch) = Some (JBool (snd (facingType (LENS_FACING ch))))"
  by (simp add: getKey_def cameraInfo_def Let_def)

lemma cameraInfo_resolutions:
  "getKey ''resolutions'' (cameraInfo cameraId ch) = Some (JArray (resolutionsOf ch))"
  by (simp add: getKey_def cameraInfo_def Let_def)

lemma collectCameras_no_escape:
  "\<not> list_ex (queryEscapes cm) cameraIds \<Longrightarrow>
     collectCameras cm cameraIds cameras = Inr (cameras @ described cm cameraIds)"
proof (induction cameraIds arbitrary: cameras)
  case Nil
  then show ?case by (simp add: described_def)
next
  case (Cons cameraId rest)
  then have rest: "\<And>cs. collectCameras cm rest cs = Inr (cs @ described cm rest)"
    by simp
  from Cons.prems have here: "\<not> queryEscapes cm cameraId" by simp
  show ?case
  proof (cases "getCameraCharacteristics cm cameraId")
    case (Inl e)
    with here obtain msg where "e = CameraAccessException msg"
      by (cases e) (simp_all add: queryEscapes_def)
    with Inl rest show ?thesis by (simp add: described_def)
  next
    case (Inr ch)
    with rest show ?thesis by (simp add: described_def)
  qed
qed

lemma collectCameras_escape:
  "list_ex (queryEscapes cm) cameraIds \<Longrightarrow>
     \<exists>e. collectCameras cm cameraIds cameras = Inl e \<and> \<not> isCameraAccess e"
proof (induction cameraIds arbitrary: cameras)
  case Nil
  then show ?case by simp
next
  case (Cons cameraId rest)
  show ?case
  proof (cases "getCameraCharacteristics cm cameraId")
    case (Inl e)
    show ?thesis
    proof (cases e)
      case (CameraAccessException msg)
      with Inl Cons show ?thesis by (simp add: queryEscapes_def)
    next
      case (RuntimeException msg)
      with Inl show ?thesis by simp
    qed
  next
    case (Inr ch)
    with Cons show ?thesis by (simp add: queryEscapes_def)
  qed
qed

lemma cameraListFailed_unknown:
  "\<not> isCameraAccess e \<Longrightarrow> cameraListFailed e = Rejected ''UNKNOWN_ERROR'' (''Unexpected error: '' @ getMessage e)"
  by (cases e) simp_all

lemma getAvailableCameras_state: "fst (getAvailableCameras cm m) = m"
  by (simp add: getAvailableCameras_def split: sum.split)

lemma getAvailableCameras_listing_fails:
  "getCameraIdList cm = Inl e \<Longrightarrow> getAvailableCameras cm m = (m, cameraListFailed e)"
  by (simp add: getAvailableCameras_def)

lemma getAvailableCameras_no_escape:
  "getCameraIdList cm = Inr cameraIds \<Longrightarrow> \<not> list_ex (queryEscapes cm) cameraIds \<Longrightarrow>
     getAvailableCameras cm m = (m, Resolved (JArray (described cm cameraIds)))"
  by (simp add: getAvailableCameras_def collectCameras_no_escape)

lemma getAvailableCameras_escape:
  assumes "getCameraIdList cm = Inr cameraIds" and "list_ex (queryEscapes cm) cameraIds"
  shows "\<exists>msg. getAvailableCameras cm m = (m, Rejected ''UNKNOWN_ERROR'' msg)"
proof -
  from collectCameras_escape [OF assms(2), of "[]"]
  obtain e where e: "collectCameras cm cameraIds [] = Inl e" "\<not> isCameraAccess e" by auto
  with assms(1) show ?thesis
    by (simp add: getAvailableCameras_def cameraListFailed_unknown)
qed

text \<open>The four ways the call can end, by what the platform does.\<close>

lemma getAvailableCameras_cases:
  obtains (denied) msg where "getCameraIdList cm = Inl (CameraAccessException msg)"
      and "getAvailableCameras cm m =
             (m, Rejected ''CAMERA_ERROR'' (''Failed to get camera list: '' @ msg))"
    | (broken) msg where "getCameraIdList cm = Inl (RuntimeException msg)"
      and "getAvailableCameras cm m =
             (m, Rejected ''UNKNOWN_ERROR'' (''Unexpected error: '' @ msg))"
    | (escaped) cameraIds msg where "getCameraIdList cm = Inr cameraIds"
      and "list_ex (queryEscapes cm) cameraIds"
      and "getAvailableCameras cm m = (m, Rejected ''UNKNOWN_ERROR'' msg)"
    | (listed) cameraIds where "getCameraIdList cm = Inr cameraIds"
      and "\<not> list_ex (queryEscapes cm) cameraIds"
      and "getAvailableCameras cm m = (m, Resolved (JArray (described cm cameraIds)))"
proof (cases "getCameraIdList cm")
  case (Inl e)
  show ?thesis
  proof (cases e)
    case (CameraAccessException msg)
    with Inl getAvailableCameras_listing_fails [OF Inl, of m] denied show ?thesis by simp
  next
    case (RuntimeException msg)
    with Inl getAvailableCameras_listing_fails [OF Inl, of m] broken show ?thesis by simp
  qed
next
  case (Inr cameraIds)
  show ?thesis
  proof (cases "list_ex (queryEscapes cm) cameraIds")
    case True
    from getAvailableCameras_escape [OF Inr True, of m] Inr True escaped show ?thesis by blast
  next
    case False
    from getAvailableCameras_no_escape [OF Inr False, of m] Inr False listed show ?thesis by blast
  qed
qed

lemma getAvailableCameras_resolved:
  "(\<exists>v. snd (getAvailableCameras cm m) = Resolved v) =
   (\<exists>ids. getCameraIdList cm = Inr ids \<and> \<not> list_ex (queryEscapes cm) ids)"
  by (cases rule: getAvailableCameras_cases [of cm m]) auto

lemma getAvailableCameras_resolves_described:
  "snd (getAvailableCameras cm m) = Resolved cameras \<Longrightarrow>
     \<exists>ids. getCameraIdList cm = Inr ids \<and> cameras = JArray (described cm ids)"
  by (cases rule: getAvailableCameras_cases [of cm m]) auto

lemma getAvailableCameras_camera_error:
  "(\<exists>msg. snd (getAvailableCameras cm m) = Rejected ''CAMERA_ERROR'' msg) =
   (\<exists>msg. getCameraIdList cm = Inl (CameraAccessException msg))"
  by (cases rule: getAvailableCameras_cases [of cm m]) auto

lemma getAvailableCameras_unknown_error:
  "(\<exists>msg. snd (getAvailableCameras cm m) = Rejected ''UNKNOWN_ERROR'' msg) =
   ((\<exists>msg. getCameraIdList cm = Inl (RuntimeException msg)) \<or>
    (\<exists>ids. getCameraIdList cm = Inr ids \<and> list_ex (queryEscapes cm) ids))"
  by (cases rule: getAvailableCameras_cases [of cm m]) auto

lemma getAvailableCameras_ends:
  "(\<exists>v. snd (getAvailableCameras cm m) = Resolved v) \<or>
   (\<exists>msg. snd (getAvailableCameras cm m) = Rejected ''CAMERA_ERROR'' msg) \<or>
   (\<exists>msg. snd (getAvailableCameras cm m) = Rejected ''UNKNOWN_ERROR'' msg)"
  by (cases rule: getAvailableCameras_cases [of cm m]) auto

lemma resolutionsOf_sizes:
  "resolutionsOf ch =
     (case SCALER_STREAM_CONFIGURATION_MAP ch of
        Some (Some sizes) \<Rightarrow>
          map (\<lambda>sz. JMap [(''width'', JInt (fst sz)), (''height'', JInt (snd sz))]) sizes
      | _ \<Rightarrow> [])"
  by (simp add: resolutionsOf_def resolutionMap_def split: option.split)

lemma described_Cons:
  "described cm (cameraId # rest) =
     (case getCameraCharacteristics cm cameraId of
        Inl e \<Rightarrow> described cm rest
      | Inr ch \<Rightarrow> cameraInfo cameraId ch # described cm rest)"
  by (simp add: described_def split: sum.split)

lemma described_member:
  "c \<in> set (described cm cameraIds) \<Longrightarrow>
     \<exists>i k. i \<in> set cameraIds \<and> getCameraCharacteristics cm i = Inr k \<and> c = cameraInfo i k"
proof (induction cameraIds)
  case Nil
  then show ?case by (simp add: described_def)
next
  case (Cons cameraId rest)
  show ?case
  proof (cases "c \<in> set (described cm rest)")
    case True
    with Cons.IH show ?thesis by auto
  next
    case False
    with Cons.prems obtain ch where "getCameraCharacteristics cm cameraId = Inr ch"
      and "c = cameraInfo cameraId ch"
      by (cases "getCameraCharacteristics cm cameraId") (auto simp: described_Cons)
    then show ?thesis by auto
  qed
qed

lemma described_complete:
  "i \<in> set cameraIds \<Longrightarrow> getCameraCharacteristics cm i = Inr k \<Longrightarrow>
     cameraInfo i k \<in> set (described cm cameraIds)"
  by (induction cameraIds) (auto simp: described_Cons split: sum.split)

lemma cameraInfo_external:
  "(getKey ''type'' (cameraInfo cameraId ch) = Some (JString ''external'')) =
     (LENS_FACING ch = None \<or> LENS_FACING ch = Some LENS_FACING_EXTERNAL)"
  by (simp add: cameraInfo_type facingType_external)

lemma cameraInfo_usb:
  "(getKey ''isUSBCamera'' (cameraInfo cameraId ch) = Some (JBool True)) =
     (LENS_FACING ch = None \<or> LENS_FACING ch = Some LENS_FACING_EXTERNAL)"
  by (simp add: cameraInfo_isUSBCamera facingType_usb)

lemma described_scenarioA:
  "described scenarioA [''0'', ''1''] = [cameraInfo ''0'' rearCamera, cameraInfo ''1'' microscope]"
  by (simp add: described_def scenarioA_def)

lemma described_unplugged:
  "described unplugged [''0'', ''1'', ''2''] =
     [cameraInfo ''0'' rearCamera, cameraInfo ''2'' microscope]"
  by (simp add: described_def unplugged_def)

text \<open>
  C7. On every platform, when the listing of the ids answers and no characteristics query
  escapes, \<open>getAvailableCameras\<close> resolves with the descriptors of the cameras whose query
  answered, in the order of the ids, and whenever it resolves that is what it resolves
  with. Each descriptor in it is the \<open>cameraInfo\<close> of one enumerated camera and marks it
  external (\<open>type = "external"\<close>, \<open>isUSBCamera = true\<close>) exactly when the platform reports
  no facing property or \<open>LENS_FACING_EXTERNAL\<close> for that camera; every camera that
  answered has its descriptor. In scenario A (one camera with \<open>LENS_FACING = BACK\<close>, one
  without facing property) the call resolves with one \<open>back\<close> entry and one \<open>external\<close>
  entry.
\<close>

theorem external_classification:
  "(getKey ''type'' (cameraInfo cameraId ch) = Some (JString ''external'')) =
     (LENS_FACING ch = None \<or> LENS_FACING ch = Some LENS_FACING_EXTERNAL) \<and>
   (getKey ''isUSBCamera'' (cameraInfo cameraId ch) = Some (JBool True)) =
     (LENS_FACING ch = None \<or> LENS_FACING ch = Some LENS_FACING_EXTERNAL) \<and>
   (getCameraIdList cm = Inr cameraIds \<and> \<not> list_ex (queryEscapes cm) cameraIds \<longrightarrow>
      getAvailableCameras cm m = (m, Resolved (JArray (described cm cameraIds)))) \<and>
   (snd (getAvailableCameras cm m) = Resolved cameras \<longrightarrow>
      (\<exists>ids. getCameraIdList cm = Inr ids \<and> cameras = JArray (described cm ids))) \<and>
   (\<forall>c\<in>set (described cm cameraIds).
      \<exists>i k. i \<in> set cameraIds \<and> getCameraCharacteristics cm i = Inr k \<and> c = cameraInfo i k \<and>
        (getKey ''type'' c = Some (JString ''external'')) =
          (LENS_FACING k = None \<or> LENS_FACING k = Some LENS_FACING_EXTERNAL) \<and>
        (getKey ''isUSBCamera'' c = Some (JBool True)) =
          (LENS_FACING k = None \<or> LENS_FACING k = Some LENS_FACING_EXTERNAL)) \<and>
   (\<forall>i\<in>set cameraIds. \<forall>k. getCameraCharacteristics cm i = Inr k \<longrightarrow>
      cameraInfo i k \<in> set (described cm cameraIds)) \<and>
   getAvailableCameras scenarioA m =
     (m, Resolved (JArray [cameraInfo ''0'' rearCamera, cameraInfo ''1'' microscope])) \<and>
   map (getKey ''type'') [cameraInfo ''0'' rearCamera, cameraInfo ''1'' microscope] =
     [Some (JString ''back''), Some (JString ''external'')]"
proof -
  have entries: "\<exists>i k. i \<in> set cameraIds \<and> getCameraCharacteristics cm i = Inr k \<and>
        c = cameraInfo i k \<and>
        (getKey ''type'' c = Some (JString ''external'')) =
          (LENS_FACING k = None \<or> LENS_FACING k = Some LENS_FACING_EXTERNAL) \<and>
        (getKey ''isUSBCamera'' c = Some (JBool True)) =
          (LENS_FACING k = None \<or> LENS_FACING k = Some LENS_FACING_EXTERNAL)"
    if "c \<in> set (described cm cameraIds)" for c
  proof -
    from described_member [OF that] obtain i k
      where "i \<in> set cameraIds" "getCameraCharacteristics cm i = Inr k" "c = cameraInfo i k"
      by blast
    then show ?thesis
      using cameraInfo_external [of i k] cameraInfo_usb [of i k] by blast
  qed
  have scenario: "getAvailableCameras scenarioA m =
     (m, Resolved (JArray [cameraInfo ''0'' rearCamera, cameraInfo ''1'' microscope]))"
    by (simp add: getAvailableCameras_def scenarioA_def)
  have types: "map (getKey ''type'') [cameraInfo ''0'' rearCamera, cameraInfo ''1'' microscope] =
     [Some (JString ''back''), Some (JString ''external'')]"
    by (simp add: cameraInfo_type rearCamera_def microscope_def facingType_def
          LENS_FACING_FRONT_def LENS_FACING_BACK_def)
  from entries scenario types show ?thesis
    using cameraInfo_external [of cameraId ch] cameraInfo_usb [of cameraId ch]
      getAvailableCameras_no_escape [of cm cameraIds m]
      getAvailableCameras_resolves_described [of cm m cameras]
      described_complete [of _ cameraIds cm]
    by blast
qed

theorem external_classification_witness:
  "getCameraIdList scenarioA = Inr [''0'', ''1''] \<and>
   \<not> list_ex (queryEscapes scenarioA) [''0'', ''1''] \<and>
   getAvailableCameras scenarioA initial =
     (initial, Resolved (JArray [cameraInfo ''0'' rearCamera, cameraInfo ''1'' microscope])) \<and>
   getCameraCharacteristics scenarioA ''1'' = Inr microscope \<and>
   cameraInfo ''1'' microscope \<in> set (described scenarioA [''0'', ''1'']) \<and>
   LENS_FACING microscope = None \<and>
   getKey ''type'' (cameraInfo ''1'' microscope) = Some (JString ''external'') \<and>
   getKey ''isUSBCamera'' (cameraInfo ''1'' microscope) = Some (JBool True)"
proof -
  note th = external_classification [of "''1''" microscope scenarioA "[''0'', ''1'']" initial
      "JArray [cameraInfo ''0'' rearCamera, cameraInfo ''1'' microscope]"]
  have ids: "getCameraIdList scenarioA = Inr [''0'', ''1'']"
    by (simp add: scenarioA_def)
  have ok: "\<not> list_ex (queryEscapes scenarioA) [''0'', ''1'']"
    by (simp add: scenarioA_def queryEscapes_def)
  have q: "getCameraCharacteristics scenarioA ''1'' = Inr microscope"
    by (simp add: scenarioA_def)
  have f: "LENS_FACING microscope = None"
    by (simp add: microscope_def)
  from th ids ok
  have r: "getAvailableCameras scenarioA initial =
     (initial, Resolved (JArray (described scenarioA [''0'', ''1''])))"
    by blast
  from th q have mem: "cameraInfo ''1'' microscope \<in> set (described scenarioA [''0'', ''1''])"
    by simp
  from th f
  have t: "getKey ''type'' (cameraInfo ''1'' microscope) = Some (JString ''external'')"
    and u: "getKey ''isUSBCamera'' (cameraInfo ''1'' microscope) = Some (JBool True)"
    by blast+
  from r have r': "getAvailableCameras scenarioA initial =
     (initial, Resolved (JArray [cameraInfo ''0'' rearCamera, cameraInfo ''1'' microscope]))"
    by (simp only: described_scenarioA)
  from ids ok r' q mem f t u show ?thesis by blast
qed

text \<open>
  C8, as amended. \<open>getAvailableCameras\<close> leaves the module's state as it was (camera
  device, capture session, image reader, background thread, and nothing sent or called).
  It ends in one of three ways. It resolves exactly when the listing of the ids answers
  and no characteristics query throws an exception other than \<open>CameraAccessException\<close>,
  and then with the descriptors of the cameras whose query answered (a camera whose query
  threw \<open>CameraAccessException\<close> has none); each descriptor's \<open>resolutions\<close> entry is the
  platform's list of JPEG output sizes of that camera (empty when the platform reports
  none). It rejects with \<open>CAMERA_ERROR\<close> exactly when the listing of the ids throws
  \<open>CameraAccessException\<close>, and with \<open>UNKNOWN_ERROR\<close> exactly when the listing or a
  characteristics query throws another exception.
\<close>

theorem enumeration_is_a_query:
  "fst (getAvailableCameras cm m) = m \<and>
   ((\<exists>v. snd (getAvailableCameras cm m) = Resolved v) \<or>
    (\<exists>msg. snd (getAvailableCameras cm m) = Rejected ''CAMERA_ERROR'' msg) \<or>
    (\<exists>msg. snd (getAvailableCameras cm m) = Rejected ''UNKNOWN_ERROR'' msg)) \<and>
   ((\<exists>v. snd (getAvailableCameras cm m) = Resolved v) =
    (\<exists>ids. getCameraIdList cm = Inr ids \<and> \<not> list_ex (queryEscapes cm) ids)) \<and>
   ((\<exists>msg. snd (getAvailableCameras cm m) = Rejected ''CAMERA_ERROR'' msg) =
    (\<exists>msg. getCameraIdList cm = Inl (CameraAccessException msg))) \<and>
   ((\<exists>msg. snd (getAvailableCameras cm m) = Rejected ''UNKNOWN_ERROR'' msg) =
    ((\<exists>msg. getCameraIdList cm = Inl (RuntimeException msg)) \<or>
     (\<exists>ids. getCameraIdList cm = Inr ids \<and> list_ex (queryEscapes cm) ids))) \<and>
   (getCameraIdList cm = Inr cameraIds \<and> \<not> list_ex (queryEscapes cm) cameraIds \<longrightarrow>
      snd (getAvailableCameras cm m) = Resolved (JArray (described cm cameraIds))) \<and>
   (\<forall>c\<in>set (described cm cameraIds).
      \<exists>i k. i \<in> set cameraIds \<and> getCameraCharacteristics cm i = Inr k \<and> c = cameraInfo i k) \<and>
   (\<forall>i\<in>set cameraIds. \<forall>k. getCameraCharacteristics cm i = Inr k \<longrightarrow>
      cameraInfo i k \<in> set (described cm cameraIds)) \<and>
   getKey ''resolutions'' (cameraInfo cameraId ch) =
     Some (JArray
       (case SCALER_STREAM_CONFIGURATION_MAP ch of
          Some (Some sizes) \<Rightarrow>
            map (\<lambda>sz. JMap [(''width'', JInt (fst sz)), (''height'', JInt (snd sz))]) sizes
        | _ \<Rightarrow> []))"
proof -
  have listed: "snd (getAvailableCameras cm m) = Resolved (JArray (described cm cameraIds))"
    if "getCameraIdList cm = Inr cameraIds" and "\<not> list_ex (queryEscapes cm) cameraIds"
    using getAvailableCameras_no_escape [OF that, of m] by simp
  have res: "getKey ''resolutions'' (cameraInfo cameraId ch) =
     Some (JArray
       (case SCALER_STREAM_CONFIGURATION_MAP ch of
          Some (Some sizes) \<Rightarrow>
            map (\<lambda>sz. JMap [(''width'', JInt (fst sz)), (''height'', JInt (snd sz))]) sizes
        | _ \<Rightarrow> []))"
    by (simp only: cameraInfo_resolutions resolutionsOf_sizes)
  have mem: "\<forall>c\<in>set (described cm cameraIds).
      \<exists>i k. i \<in> set cameraIds \<and> getCameraCharacteristics cm i = Inr k \<and> c = cameraInfo i k"
    using described_member by blast
  have all: "\<forall>i\<in>set cameraIds. \<forall>k. getCameraCharacteristics cm i = Inr k \<longrightarrow>
      cameraInfo i k \<in> set (described cm cameraIds)"
    using described_complete by blast
  from listed res mem all show ?thesis
    using getAvailableCameras_state [of cm m] getAvailableCameras_ends [of cm m]
      getAvailableCameras_resolved [of cm m] getAvailableCameras_camera_error [of cm m]
      getAvailableCameras_unknown_error [of cm m]
    by blast
qed

theorem enumeration_is_a_query_witness:
  "getCameraIdList unplugged = Inr [''0'', ''1'', ''2''] \<and>
   \<not> list_ex (queryEscapes unplugged) [''0'', ''1'', ''2''] \<and>
   snd (getAvailableCameras unplugged initial) =
     Resolved (JArray [cameraInfo ''0'' rearCamera, cameraInfo ''2'' microscope]) \<and>
   getCameraCharacteristics unplugged ''2'' = Inr microscope \<and>
   cameraInfo ''2'' microscope \<in> set (described unplugged [''0'', ''1'', ''2'']) \<and>
   getKey ''resolutions'' (cameraInfo ''2'' microscope) =
     Some (JArray [JMap [(''width'', JInt 640), (''height'', JInt 480)]])"
proof -
  note th = enumeration_is_a_query [of unplugged initial "[''0'', ''1'', ''2'']" "''2''" microscope]
  have ids: "getCameraIdList unplugged = Inr [''0'', ''1'', ''2'']"
    by (simp add: unplugged_def)
  have ok: "\<not> list_ex (queryEscapes unplugged) [''0'', ''1'', ''2'']"
    by (simp add: unplugged_def queryEscapes_def)
  have q: "getCameraCharacteristics unplugged ''2'' = Inr microscope"
    by (simp add: unplugged_def)
  from th ids ok
  have "snd (getAvailableCameras unplugged initial) =
     Resolved (JArray (described unplugged [''0'', ''1'', ''2'']))"
    by blast
  then have r: "snd (getAvailableCameras unplugged initial) =
     Resolved (JArray [cameraInfo ''0'' rearCamera, cameraInfo ''2'' microscope])"
    by (simp only: described_unplugged)
  from th q have mem: "cameraInfo ''2'' microscope \<in> set (described unplugged [''0'', ''1'', ''2''])"
    by simp
  from th
  have "getKey ''resolutions'' (cameraInfo ''2'' microscope) =
     Some (JArray
       (case SCALER_STREAM_CONFIGURATION_MAP microscope of
          Some (Some sizes) \<Rightarrow>
            map (\<lambda>sz. JMap [(''width'', JInt (fst sz)), (''height'', JInt (snd sz))]) sizes
        | _ \<Rightarrow> []))"
    by blast
  then have s: "getKey ''resolutions'' (cameraInfo ''2'' microscope) =
     Some (JArray [JMap [(''width'', JInt 640), (''height'', JInt 480)]])"
    by (simp add: microscope_def)
  from ids ok r q mem s show ?thesis by blast
qed

text \<open>
  C8 as stated fails. The platform \<open>unplugged\<close> lists three cameras and the call returns
  two descriptors: the camera whose query threw \<open>CameraAccessException\<close> has none. On
  \<open>vanished\<close> the camera service answers the listing and the first query, and the call
  fails all the same, with \<open>UNKNOWN_ERROR\<close>.
\<close>

theorem listing_omits_camera_and_fails_unlisted:
  "getCameraIdList unplugged = Inr [''0'', ''1'', ''2''] \<and>
   snd (getAvailableCameras unplugged initial) =
     Resolved (JArray [cameraInfo ''0'' rearCamera, cameraInfo ''2'' microscope]) \<and>
   map (getKey ''id'') [cameraInfo ''0'' rearCamera, cameraInfo ''2'' microscope] =
     [Some (JString ''0''), Some (JString ''2'')] \<and>
   getCameraIdList vanished = Inr [''0'', ''1''] \<and>
   snd (getAvailableCameras vanished initial) =
     Rejected ''UNKNOWN_ERROR'' ''Unexpected error: IllegalArgumentException''"
  by (simp add: unplugged_def vanished_def getAvailableCameras_def getKey_def cameraInfo_def
        Let_def)

text \<open>
  C10, as amended. A camera whose characteristics query throws \<open>CameraAccessException\<close>
  is skipped and the descriptors of the other cameras are still returned: when the listing
  of the ids answers and every exception of a query is a \<open>CameraAccessException\<close>, the
  call resolves with the descriptors of the cameras that answered. The call is rejected
  when the listing of the ids throws (\<open>CAMERA_ERROR\<close> for \<open>CameraAccessException\<close>,
  \<open>UNKNOWN_ERROR\<close> otherwise), and also, with \<open>UNKNOWN_ERROR\<close>, when some characteristics
  query throws an exception other than \<open>CameraAccessException\<close>: the handler inside the
  loop does not catch it, the handler around the method does.
\<close>

theorem faulty_camera_skipped:
  "(getCameraIdList cm = Inl e \<longrightarrow>
      getAvailableCameras cm m =
        (m, case e of
              CameraAccessException msg \<Rightarrow>
                Rejected ''CAMERA_ERROR'' (''Failed to get camera list: '' @ msg)
            | RuntimeException msg \<Rightarrow>
                Rejected ''UNKNOWN_ERROR'' (''Unexpected error: '' @ msg))) \<and>
   (getCameraIdList cm = Inr cameraIds \<and> \<not> list_ex (queryEscapes cm) cameraIds \<longrightarrow>
      getAvailableCameras cm m = (m, Resolved (JArray (described cm cameraIds)))) \<and>
   (getCameraIdList cm = Inr cameraIds \<and> list_ex (queryEscapes cm) cameraIds \<longrightarrow>
      (\<exists>msg. getAvailableCameras cm m = (m, Rejected ''UNKNOWN_ERROR'' msg))) \<and>
   described cm [] = [] \<and>
   described cm (cameraId # rest) =
     (case getCameraCharacteristics cm cameraId of
        Inl x \<Rightarrow> described cm rest
      | Inr ch \<Rightarrow> cameraInfo cameraId ch # described cm rest)"
proof -
  have "getAvailableCameras cm m =
        (m, case e of
              CameraAccessException msg \<Rightarrow>
                Rejected ''CAMERA_ERROR'' (''Failed to get camera list: '' @ msg)
            | RuntimeException msg \<Rightarrow>
                Rejected ''UNKNOWN_ERROR'' (''Unexpected error: '' @ msg))"
    if "getCameraIdList cm = Inl e"
    using getAvailableCameras_listing_fails [OF that, of m] by (cases e) simp_all
  moreover have "described cm [] = []"
    by (simp add: described_def)
  ultimately show ?thesis
    using getAvailableCameras_no_escape [of cm cameraIds m]
      getAvailableCameras_escape [of cm cameraIds m] described_Cons [of cm cameraId rest]
    by blast
qed

theorem faulty_camera_skipped_witness:
  "getCameraIdList serviceDown = Inl (CameraAccessException ''CAMERA_DISCONNECTED'') \<and>
   getAvailableCameras serviceDown initial =
     (initial, Rejected ''CAMERA_ERROR'' ''Failed to get camera list: CAMERA_DISCONNECTED'') \<and>
   getCameraIdList unplugged = Inr [''0'', ''1'', ''2''] \<and>
   getCameraCharacteristics unplugged ''1'' = Inl (CameraAccessException ''CAMERA_DISCONNECTED'') \<and>
   \<not> list_ex (queryEscapes unplugged) [''0'', ''1'', ''2''] \<and>
   getAvailableCameras unplugged initial =
     (initial, Resolved (JArray [cameraInfo ''0'' rearCamera, cameraInfo ''2'' microscope])) \<and>
   getCameraIdList vanished = Inr [''0'', ''1''] \<and>
   list_ex (queryEscapes vanished) [''0'', ''1''] \<and>
   (\<exists>msg. getAvailableCameras vanished initial = (initial, Rejected ''UNKNOWN_ERROR'' msg))"
proof -
  have down: "getCameraIdList serviceDown = Inl (CameraAccessException ''CAMERA_DISCONNECTED'')"
    by (simp add: serviceDown_def)
  have ids: "getCameraIdList unplugged = Inr [''0'', ''1'', ''2'']"
    by (simp add: unplugged_def)
  have q: "getCameraCharacteristics unplugged ''1'' = Inl (CameraAccessException ''CAMERA_DISCONNECTED'')"
    by (simp add: unplugged_def)
  have ok: "\<not> list_ex (queryEscapes unplugged) [''0'', ''1'', ''2'']"
    by (simp add: unplugged_def queryEscapes_def)
  have ids': "getCameraIdList vanished = Inr [''0'', ''1'']"
    by (simp add: vanished_def)
  have bad: "list_ex (queryEscapes vanished) [''0'', ''1'']"
    by (simp add: vanished_def queryEscapes_def)
  from faulty_camera_skipped [of serviceDown "CameraAccessException ''CAMERA_DISCONNECTED''" initial]
    down
  have r0: "getAvailableCameras serviceDown initial =
     (initial, Rejected ''CAMERA_ERROR'' ''Failed to get camera list: CAMERA_DISCONNECTED'')"
    by simp
  from faulty_camera_skipped [of unplugged _ initial "[''0'', ''1'', ''2'']"] ids ok
  have "getAvailableCameras unplugged initial =
     (initial, Resolved (JArray (described unplugged [''0'', ''1'', ''2''])))"
    by blast
  then have r1: "getAvailableCameras unplugged initial =
     (initial, Resolved (JArray [cameraInfo ''0'' rearCamera, cameraInfo ''2'' microscope]))"
    by (simp only: described_unplugged)
  from faulty_camera_skipped [of vanished _ initial "[''0'', ''1'']"] ids' bad
  have r2: "\<exists>msg. getAvailableCameras vanished initial = (initial, Rejected ''UNKNOWN_ERROR'' msg)"
    by blast
  from down r0 ids q ok r1 ids' bad r2 show ?thesis by blast
qed

text \<open>
  C10 as stated fails: the listing of the ids succeeds and camera 0 answers, but the query
  for camera 1 throws an unchecked exception and the whole call is rejected.
\<close>

theorem vanished_camera_rejects_listing:
  "getCameraIdList vanished = Inr [''0'', ''1''] \<and>
   getCameraCharacteristics vanished ''0'' = Inr rearCamera \<and>
   getCameraCharacteristics vanished ''1'' = Inl (RuntimeException ''IllegalArgumentException'') \<and>
   getAvailableCameras vanished initial =
     (initial, Rejected ''UNKNOWN_ERROR'' ''Unexpected error: IllegalArgumentException'')"
  by (simp add: vanished_def getAvailableCameras_def)

subsection \<open>Running the scenarios\<close>

lemmas module_defs =
  openCamera_def onOpened_def onDisconnected_def onError_def startPreview_def
  onImageAvailable_def onConfigured_def onConfigureFailed_def captureImage_def
  closeCamera_def closeSession_def closeDevice_def closeReader_def
  stopBackgroundThread_def startBackgroundThread_def sendEvent_def call_def
  imageCapturedEvent_def closedEvent_def Let_def

lemma run_previewing:
  "run previewing initial =
     (\<lparr> cameraDevice = Some (CameraDevice 1),
         captureSession = Some (CameraCaptureSession 1),
         imageReader = Some (ImageReader 1920 1080),
         backgroundThread = Some (HandlerThread 0),
         backgroundHandler = Some (Handler (HandlerThread 0)),
         events =
           [(''USBCameraEvent'',
             JMap [(''cameraId'', JString ''cam-external-1''), (''status'', JString ''opened'')]),
            (''USBCameraEvent'', JMap [(''status'', JString ''preview_started'')])],
         calls =
           [HandlerThread_start (HandlerThread 0),
            CameraManager_openCamera ''cam-external-1'' (Some (Handler (HandlerThread 0))),
            ImageReader_newInstance 1920 1080,
            ImageReader_setOnImageAvailableListener (ImageReader 1920 1080)
              (Some (Handler (HandlerThread 0))),
            CameraDevice_createCaptureSession (CameraDevice 1) (ImageReader 1920 1080)
              (Some (Handler (HandlerThread 0))),
            CameraDevice_createCaptureRequest (CameraDevice 1) TEMPLATE_PREVIEW,
            CameraCaptureSession_setRepeatingRequest (CameraCaptureSession 1)
              (ImageReader 1920 1080) (Some (Handler (HandlerThread 0)))],
         threads = 1 \<rparr>,
      [Pending, Resolved (JString ''Camera opened successfully''), Pending,
       Resolved (JString ''Preview started successfully'')])"
  by (simp add: previewing_def initial_def normal_def module_defs)

lemma run_append:
  "run (as @ bs) m =
     (case run as m of
        (m1, outs) \<Rightarrow>
          if \<exists>e. Uncaught e \<in> set outs then (m1, outs)
          else (case run bs m1 of (m2, outs2) \<Rightarrow> (m2, outs @ outs2)))"
proof (induction as arbitrary: m)
  case Nil
  then show ?case by (simp split: prod.split)
next
  case (Cons a as)
  obtain m1 out where s: "step normal a m = (m1, out)" by (cases "step normal a m")
  show ?case
  proof (cases out)
    case (Uncaught e)
    with s show ?thesis by auto
  next
    case (Resolved v)
    with s Cons.IH [of m1] show ?thesis by (auto split: prod.splits)
  next
    case (Rejected c msg)
    with s Cons.IH [of m1] show ?thesis by (auto split: prod.splits)
  next
    case Pending
    with s Cons.IH [of m1] show ?thesis by (auto split: prod.splits)
  qed
qed

lemma run_after_previewing:
  "run (previewing @ bs) initial =
     (case run bs livePreview of
        (m2, outs2) \<Rightarrow>
          (m2, [Pending, Resolved (JString ''Camera opened successfully''), Pending,
                Resolved (JString ''Preview started successfully'')] @ outs2))"
  by (simp add: run_append livePreview_def run_previewing split: prod.split)

subsection \<open>Closing\<close>

lemma closeCamera_outcome:
  "snd (closeCamera p m) = Resolved (JString ''Camera closed successfully'')"
  by (simp add: closeCamera_def)

lemma closeCamera_cameraDevice: "cameraDevice (fst (closeCamera p m)) = None"
  by (simp add: module_defs split: option.split)

lemma closeCamera_captureSession: "captureSession (fst (closeCamera p m)) = None"
  by (simp add: module_defs split: option.split)

lemma closeCamera_imageReader: "imageReader (fst (closeCamera p m)) = None"
  by (simp add: module_defs split: option.split)

lemma closeCamera_backgroundThread:
  "backgroundThread (fst (closeCamera p m)) =
     (if joinInterrupted p then backgroundThread m else None)"
  by (simp add: module_defs split: option.split)

lemma closeCamera_events: "events (fst (closeCamera p m)) = events m @ [closedEvent]"
  by (simp add: module_defs split: option.split)

lemma closeCamera_calls:
  "calls (fst (closeCamera p m)) =
     calls m @
     (case captureSession m of None \<Rightarrow> [] | Some session \<Rightarrow> [CameraCaptureSession_close session]) @
     (case cameraDevice m of None \<Rightarrow> [] | Some device \<Rightarrow> [CameraDevice_close device]) @
     (case imageReader m of None \<Rightarrow> [] | Some reader \<Rightarrow> [ImageReader_close reader]) @
     (case backgroundThread m of None \<Rightarrow> [] | Some t \<Rightarrow> [HandlerThread_quitSafely t])"
  by (simp add: module_defs split: option.split)

text \<open>
  C9, as amended. Whatever the state before, \<open>closeCamera\<close> resolves its promise and
  leaves the camera device, the capture session and the image reader fields null; the
  background thread the module held has been told to quit, and the thread field is null
  too unless the \<open>join\<close> on it was interrupted.
\<close>

theorem close_clears_resources:
  "snd (closeCamera p m) = Resolved (JString ''Camera closed successfully'') \<and>
   cameraDevice (fst (closeCamera p m)) = None \<and>
   captureSession (fst (closeCamera p m)) = None \<and>
   imageReader (fst (closeCamera p m)) = None \<and>
   (\<forall>t. backgroundThread m = Some t \<longrightarrow>
      HandlerThread_quitSafely t \<in> set (calls (fst (closeCamera p m)))) \<and>
   (\<not> joinInterrupted p \<longrightarrow> backgroundThread (fst (closeCamera p m)) = None)"
  by (simp add: closeCamera_outcome closeCamera_cameraDevice closeCamera_captureSession
        closeCamera_imageReader closeCamera_backgroundThread closeCamera_calls)

theorem close_clears_resources_witness:
  "backgroundThread livePreview = Some (HandlerThread 0) \<and>
   \<not> joinInterrupted normal \<and>
   snd (closeCamera normal livePreview) = Resolved (JString ''Camera closed successfully'') \<and>
   cameraDevice (fst (closeCamera normal livePreview)) = None \<and>
   captureSession (fst (closeCamera normal livePreview)) = None \<and>
   imageReader (fst (closeCamera normal livePreview)) = None \<and>
   HandlerThread_quitSafely (HandlerThread 0) \<in> set (calls (fst (closeCamera normal livePreview))) \<and>
   backgroundThread (fst (closeCamera normal livePreview)) = None"
proof -
  have t: "backgroundThread livePreview = Some (HandlerThread 0)"
    by (simp add: livePreview_def run_previewing)
  have n: "\<not> joinInterrupted normal"
    by (simp add: normal_def)
  from close_clears_resources [of normal livePreview] t n show ?thesis by simp
qed

text \<open>
  C9 as stated fails: when the \<open>join\<close> is interrupted the promise is resolved all the
  same, and the thread and handler fields still hold the thread.
\<close>

theorem interrupted_close_keeps_thread:
  "snd (closeCamera interrupting livePreview) = Resolved (JString ''Camera closed successfully'') \<and>
   backgroundThread (fst (closeCamera interrupting livePreview)) = Some (HandlerThread 0) \<and>
   backgroundHandler (fst (closeCamera interrupting livePreview)) =
     Some (Handler (HandlerThread 0))"
  by (simp add: livePreview_def run_previewing interrupting_def normal_def module_defs)

text \<open>
  C4, as amended. Two calls of \<open>closeCamera\<close> in a row, from any state: each resolves and
  each sends one \<open>closed\<close> event, two in total. The first call closes the capture session,
  the camera device and the image reader that were held (in this order) and tells the
  background thread to quit; the three fields are null after it. The second call closes
  no session, device or reader; when the first call's \<open>join\<close> was not interrupted it
  makes no platform call at all and changes nothing but the list of events.
\<close>

theorem close_twice:
  "snd (closeCamera p m) = Resolved (JString ''Camera closed successfully'') \<and>
   snd (closeCamera q (fst (closeCamera p m))) = Resolved (JString ''Camera closed successfully'') \<and>
   events (fst (closeCamera p m)) = events m @ [closedEvent] \<and>
   events (fst (closeCamera q (fst (closeCamera p m)))) = events m @ [closedEvent, closedEvent] \<and>
   calls (fst (closeCamera p m)) =
     calls m @
     (case captureSession m of None \<Rightarrow> [] | Some session \<Rightarrow> [CameraCaptureSession_close session]) @
     (case cameraDevice m of None \<Rightarrow> [] | Some device \<Rightarrow> [CameraDevice_close device]) @
     (case imageReader m of None \<Rightarrow> [] | Some reader \<Rightarrow> [ImageReader_close reader]) @
     (case backgroundThread m of None \<Rightarrow> [] | Some t \<Rightarrow> [HandlerThread_quitSafely t]) \<and>
   cameraDevice (fst (closeCamera p m)) = None \<and>
   captureSession (fst (closeCamera p m)) = None \<and>
   imageReader (fst (closeCamera p m)) = None \<and>
   calls (fst (closeCamera q (fst (closeCamera p m)))) =
     calls (fst (closeCamera p m)) @
     (case backgroundThread (fst (closeCamera p m)) of
        None \<Rightarrow> []
      | Some t \<Rightarrow> [HandlerThread_quitSafely t]) \<and>
   cameraDevice (fst (closeCamera q (fst (closeCamera p m)))) = None \<and>
   captureSession (fst (closeCamera q (fst (closeCamera p m)))) = None \<and>
   imageReader (fst (closeCamera q (fst (closeCamera p m)))) = None \<and>
   (\<not> joinInterrupted p \<longrightarrow>
      backgroundThread (fst (closeCamera p m)) = None \<and>
      calls (fst (closeCamera q (fst (closeCamera p m)))) = calls (fst (closeCamera p m)) \<and>
      fst (closeCamera q (fst (closeCamera p m))) =
        (fst (closeCamera p m))\<lparr>events := events (fst (closeCamera p m)) @ [closedEvent]\<rparr>)"
proof -
  let ?m1 = "fst (closeCamera p m)"
  have second: "calls (fst (closeCamera q ?m1)) =
     calls ?m1 @
     (case backgroundThread ?m1 of None \<Rightarrow> [] | Some t \<Rightarrow> [HandlerThread_quitSafely t])"
    by (simp add: closeCamera_calls [of q ?m1] closeCamera_cameraDevice
          closeCamera_captureSession closeCamera_imageReader)
  have idle: "backgroundThread ?m1 = None \<and>
      calls (fst (closeCamera q ?m1)) = calls ?m1 \<and>
      fst (closeCamera q ?m1) = ?m1\<lparr>events := events ?m1 @ [closedEvent]\<rparr>"
    if "\<not> joinInterrupted p"
  proof -
    from that have t: "backgroundThread ?m1 = None"
      by (simp add: closeCamera_backgroundThread)
    then have "fst (closeCamera q ?m1) = ?m1\<lparr>events := events ?m1 @ [closedEvent]\<rparr>"
      using closeCamera_cameraDevice [of p m] closeCamera_captureSession [of p m]
        closeCamera_imageReader [of p m]
      by (simp add: closeCamera_def [of q] closeSession_def closeDevice_def closeReader_def
            stopBackgroundThread_def sendEvent_def)
    with t second show ?thesis by simp
  qed
  have first: "calls ?m1 =
     calls m @
     (case captureSession m of None \<Rightarrow> [] | Some session \<Rightarrow> [CameraCaptureSession_close session]) @
     (case cameraDevice m of None \<Rightarrow> [] | Some device \<Rightarrow> [CameraDevice_close device]) @
     (case imageReader m of None \<Rightarrow> [] | Some reader \<Rightarrow> [ImageReader_close reader]) @
     (case backgroundThread m of None \<Rightarrow> [] | Some t \<Rightarrow> [HandlerThread_quitSafely t])"
    by (rule closeCamera_calls)
  have ev: "events (fst (closeCamera q ?m1)) = events m @ [closedEvent, closedEvent]"
    by (simp add: closeCamera_events)
  from first second idle ev show ?thesis
    using closeCamera_outcome [of p m] closeCamera_outcome [of q ?m1]
      closeCamera_events [of p m]
      closeCamera_cameraDevice [of p m] closeCamera_captureSession [of p m]
      closeCamera_imageReader [of p m]
      closeCamera_cameraDevice [of q ?m1] closeCamera_captureSession [of q ?m1]
      closeCamera_imageReader [of q ?m1]
    by blast
qed

theorem close_twice_witness:
  "\<not> joinInterrupted normal \<and>
   snd (closeCamera normal livePreview) = Resolved (JString ''Camera closed successfully'') \<and>
   calls (fst (closeCamera normal livePreview)) =
     calls livePreview @
     [CameraCaptureSession_close (CameraCaptureSession 1), CameraDevice_close (CameraDevice 1),
      ImageReader_close (ImageReader 1920 1080), HandlerThread_quitSafely (HandlerThread 0)] \<and>
   events (fst (closeCamera normal (fst (closeCamera normal livePreview)))) =
     events livePreview @ [closedEvent, closedEvent] \<and>
   calls (fst (closeCamera normal (fst (closeCamera normal livePreview)))) =
     calls (fst (closeCamera normal livePreview))"
proof -
  have n: "\<not> joinInterrupted normal"
    by (simp add: normal_def)
  have held: "captureSession livePreview = Some (CameraCaptureSession 1)"
    "cameraDevice livePreview = Some (CameraDevice 1)"
    "imageReader livePreview = Some (ImageReader 1920 1080)"
    "backgroundThread livePreview = Some (HandlerThread 0)"
    by (simp_all add: livePreview_def run_previewing)
  note twice = close_twice [of normal livePreview normal]
  from twice
  have res: "snd (closeCamera normal livePreview) =
      Resolved (JString ''Camera closed successfully'')"
    by (rule conjunct1)
  from twice
  have "calls (fst (closeCamera normal livePreview)) =
     calls livePreview @
     (case captureSession livePreview of
        None \<Rightarrow> [] | Some session \<Rightarrow> [CameraCaptureSession_close session]) @
     (case cameraDevice livePreview of
        None \<Rightarrow> [] | Some device \<Rightarrow> [CameraDevice_close device]) @
     (case imageReader livePreview of
        None \<Rightarrow> [] | Some reader \<Rightarrow> [ImageReader_close reader]) @
     (case backgroundThread livePreview of
        None \<Rightarrow> [] | Some t \<Rightarrow> [HandlerThread_quitSafely t])"
    by blast
  with held
  have released: "calls (fst (closeCamera normal livePreview)) =
     calls livePreview @
     [CameraCaptureSession_close (CameraCaptureSession 1), CameraDevice_close (CameraDevice 1),
      ImageReader_close (ImageReader 1920 1080), HandlerThread_quitSafely (HandlerThread 0)]"
    by simp
  from twice
  have ev: "events (fst (closeCamera normal (fst (closeCamera normal livePreview)))) =
         events livePreview @ [closedEvent, closedEvent]"
    by blast
  from twice n
  have st: "calls (fst (closeCamera normal (fst (closeCamera normal livePreview)))) =
     calls (fst (closeCamera normal livePreview))"
    by blast
  from n res released ev st show ?thesis by blast
qed

text \<open>
  C4 as stated fails: closing the running preview twice sends two \<open>closed\<close> events, and so
  does closing twice when nothing was ever opened.
\<close>

theorem close_twice_two_closed_events:
  "statusEvents ''closed'' (fst (run (previewing @ [CloseCamera, CloseCamera]) initial)) =
     [closedEvent, closedEvent] \<and>
   events (fst (run [CloseCamera, CloseCamera] initial)) = [closedEvent, closedEvent]"
proof -
  have "statusEvents ''closed'' (fst (run (previewing @ [CloseCamera, CloseCamera]) initial)) =
     [closedEvent, closedEvent]"
    by (simp add: run_after_previewing livePreview_def run_previewing statusEvents_def
          getKey_def normal_def module_defs split: prod.split)
  moreover have "events (fst (run [CloseCamera, CloseCamera] initial)) =
     [closedEvent, closedEvent]"
    by (simp add: initial_def normal_def module_defs)
  ultimately show ?thesis by simp
qed

subsection \<open>Opening\<close>

lemma openCamera_outcome:
  "snd (openCamera p cameraId m) =
     (if \<not> permissionGranted p
      then Rejected ''PERMISSION_DENIED'' ''Camera permission not granted''
      else case openCameraThrows p of
             None \<Rightarrow> Pending
           | Some e \<Rightarrow> catchCameraAccess ''CAMERA_ERROR'' ''Failed to open camera: '' e)"
  by (simp add: openCamera_def Let_def split: option.split)

lemma openCamera_granted:
  assumes "permissionGranted p" and "openCameraThrows p = None"
  shows "fst (openCamera p cameraId m) =
     m\<lparr>backgroundThread := Some (HandlerThread (threads m)),
       backgroundHandler := Some (Handler (HandlerThread (threads m))),
       threads := Suc (threads m),
       calls := calls m @
         [HandlerThread_start (HandlerThread (threads m)),
          CameraManager_openCamera cameraId (Some (Handler (HandlerThread (threads m))))]\<rparr>"
  using assms by (simp add: openCamera_def startBackgroundThread_def call_def Let_def)

lemma run_opened:
  "run opened initial =
     (\<lparr> cameraDevice = Some (CameraDevice 1), captureSession = None, imageReader = None,
         backgroundThread = Some (HandlerThread 0),
         backgroundHandler = Some (Handler (HandlerThread 0)),
         events =
           [(''USBCameraEvent'',
             JMap [(''cameraId'', JString ''cam-1''), (''status'', JString ''opened'')])],
         calls =
           [HandlerThread_start (HandlerThread 0),
            CameraManager_openCamera ''cam-1'' (Some (Handler (HandlerThread 0)))],
         threads = 1 \<rparr>,
      [Pending, Resolved (JString ''Camera opened successfully'')])"
  by (simp add: opened_def initial_def normal_def module_defs)

text \<open>
  C1, as amended. \<open>openCamera\<close> does not look at the session: in every state its outcome
  is the one it has in the initial state. It rejects only with \<open>PERMISSION_DENIED\<close> (before
  touching anything) or with \<open>CAMERA_ERROR\<close> (the platform's \<open>openCamera\<close> threw
  \<open>CameraAccessException\<close>). With the permission granted and no exception it starts a
  new background thread and asks the platform to open the device, also while a camera is
  open; the promise stays pending and the camera device, capture session and image reader
  fields keep their values until a callback of the platform changes them.
\<close>

theorem open_ignores_live_session:
  "snd (openCamera p cameraId m) = snd (openCamera p cameraId initial) \<and>
   (\<forall>code msg. snd (openCamera p cameraId m) = Rejected code msg \<longrightarrow>
      code = ''PERMISSION_DENIED'' \<and> \<not> permissionGranted p \<and> fst (openCamera p cameraId m) = m \<or>
      code = ''CAMERA_ERROR'' \<and> (\<exists>e. openCameraThrows p = Some (CameraAccessException e))) \<and>
   (permissionGranted p \<and> openCameraThrows p = None \<longrightarrow>
      snd (openCamera p cameraId m) = Pending \<and>
      calls (fst (openCamera p cameraId m)) =
        calls m @
        [HandlerThread_start (HandlerThread (threads m)),
         CameraManager_openCamera cameraId (Some (Handler (HandlerThread (threads m))))] \<and>
      cameraDevice (fst (openCamera p cameraId m)) = cameraDevice m \<and>
      captureSession (fst (openCamera p cameraId m)) = captureSession m \<and>
      imageReader (fst (openCamera p cameraId m)) = imageReader m)"
proof -
  have a: "snd (openCamera p cameraId m) = snd (openCamera p cameraId initial)"
    by (simp only: openCamera_outcome)
  have b: "code = ''PERMISSION_DENIED'' \<and> \<not> permissionGranted p \<and> fst (openCamera p cameraId m) = m \<or>
      code = ''CAMERA_ERROR'' \<and> (\<exists>e. openCameraThrows p = Some (CameraAccessException e))"
    if r: "snd (openCamera p cameraId m) = Rejected code msg" for code msg
  proof (cases "permissionGranted p")
    case False
    with r show ?thesis by (simp add: openCamera_def)
  next
    case True
    show ?thesis
    proof (cases "openCameraThrows p")
      case None
      with True r show ?thesis by (simp add: openCamera_outcome)
    next
      case (Some e)
      with True r show ?thesis by (cases e) (simp_all add: openCamera_outcome)
    qed
  qed
  have c: "snd (openCamera p cameraId m) = Pending \<and>
      calls (fst (openCamera p cameraId m)) =
        calls m @
        [HandlerThread_start (HandlerThread (threads m)),
         CameraManager_openCamera cameraId (Some (Handler (HandlerThread (threads m))))] \<and>
      cameraDevice (fst (openCamera p cameraId m)) = cameraDevice m \<and>
      captureSession (fst (openCamera p cameraId m)) = captureSession m \<and>
      imageReader (fst (openCamera p cameraId m)) = imageReader m"
    if "permissionGranted p" and "openCameraThrows p = None"
    using that by (simp add: openCamera_outcome openCamera_granted)
  from a b c show ?thesis by blast
qed

theorem open_ignores_live_session_witness:
  "permissionGranted normal \<and> openCameraThrows normal = None \<and>
   cameraDevice (fst (run opened initial)) = Some (CameraDevice 1) \<and>
   snd (openCamera normal ''cam-2'' (fst (run opened initial))) = Pending \<and>
   calls (fst (openCamera normal ''cam-2'' (fst (run opened initial)))) =
     [HandlerThread_start (HandlerThread 0),
      CameraManager_openCamera ''cam-1'' (Some (Handler (HandlerThread 0))),
      HandlerThread_start (HandlerThread 1),
      CameraManager_openCamera ''cam-2'' (Some (Handler (HandlerThread 1)))] \<and>
   cameraDevice (fst (openCamera normal ''cam-2'' (fst (run opened initial)))) =
     Some (CameraDevice 1)"
proof -
  have g: "permissionGranted normal" and t: "openCameraThrows normal = None"
    by (simp_all add: normal_def)
  have dev: "cameraDevice (fst (run opened initial)) = Some (CameraDevice 1)"
    and cl: "calls (fst (run opened initial)) =
      [HandlerThread_start (HandlerThread 0),
       CameraManager_openCamera ''cam-1'' (Some (Handler (HandlerThread 0)))]"
    and th: "threads (fst (run opened initial)) = 1"
    by (simp_all add: run_opened)
  from open_ignores_live_session [of normal "''cam-2''" "fst (run opened initial)"] g t
  have "snd (openCamera normal ''cam-2'' (fst (run opened initial))) = Pending \<and>
      calls (fst (openCamera normal ''cam-2'' (fst (run opened initial)))) =
        calls (fst (run opened initial)) @
        [HandlerThread_start (HandlerThread (threads (fst (run opened initial)))),
         CameraManager_openCamera ''cam-2''
           (Some (Handler (HandlerThread (threads (fst (run opened initial))))))] \<and>
      cameraDevice (fst (openCamera normal ''cam-2'' (fst (run opened initial)))) =
        cameraDevice (fst (run opened initial))"
    by blast
  with dev cl th g t show ?thesis by simp
qed

text \<open>
  C1 as stated fails. With a camera open, a second \<open>openCamera\<close> is not rejected: its
  promise stays pending, a second thread is started and the platform is asked for a second
  device; when the platform acknowledges it, the first device is dropped without being
  closed. The same happens when the second call comes before the first acknowledgement
  (scenario C).
\<close>

theorem second_open_not_rejected:
  "run (opened @ [OpenCamera ''cam-2'', OnOpened ''cam-2'' (CameraDevice 2)]) initial =
     (\<lparr> cameraDevice = Some (CameraDevice 2), captureSession = None, imageReader = None,
         backgroundThread = Some (HandlerThread 1),
         backgroundHandler = Some (Handler (HandlerThread 1)),
         events =
           [(''USBCameraEvent'',
             JMap [(''cameraId'', JString ''cam-1''), (''status'', JString ''opened'')]),
            (''USBCameraEvent'',
             JMap [(''cameraId'', JString ''cam-2''), (''status'', JString ''opened'')])],
         calls =
           [HandlerThread_start (HandlerThread 0),
            CameraManager_openCamera ''cam-1'' (Some (Handler (HandlerThread 0))),
            HandlerThread_start (HandlerThread 1),
            CameraManager_openCamera ''cam-2'' (Some (Handler (HandlerThread 1)))],
         threads = 2 \<rparr>,
      [Pending, Resolved (JString ''Camera opened successfully''), Pending,
       Resolved (JString ''Camera opened successfully'')]) \<and>
   snd (run [OpenCamera ''cam-1'', OpenCamera ''cam-2''] initial) = [Pending, Pending]"
  by (simp add: opened_def initial_def normal_def module_defs)

subsection \<open>Capturing\<close>

lemma captureImage_no_session:
  "captureSession m = None \<Longrightarrow>
     captureImage p m = (m, Rejected ''NO_SESSION'' ''No active capture session'')"
  by (simp add: captureImage_def)

lemma captureImage_no_device:
  "captureSession m = Some session \<Longrightarrow> cameraDevice m = None \<Longrightarrow>
     captureImage p m = (m, Uncaught NullPointerException)"
  by (simp add: captureImage_def)

lemma captureImage_events: "events (fst (captureImage p m)) = events m"
  by (simp add: captureImage_def call_def Let_def split: option.split)

text \<open>
  C2. After a disconnection in the running preview the module is not previewing any more,
  yet \<open>captureImage\<close> neither rejects with \<open>NO_SESSION\<close> nor answers at all: the guard
  finds \<open>captureSession\<close> still set, and the dereference of the cleared \<open>cameraDevice\<close>
  leaves the method as a \<open>NullPointerException\<close>.
\<close>

theorem capture_after_disconnect_faults:
  "run (previewing @ [OnDisconnected ''cam-external-1'' (CameraDevice 1), CaptureImage]) initial =
     (livePreview
        \<lparr>cameraDevice := None,
          events := events livePreview @ [disconnectedEvent ''cam-external-1''],
          calls := calls livePreview @ [CameraDevice_close (CameraDevice 1)]\<rparr>,
      [Pending, Resolved (JString ''Camera opened successfully''), Pending,
       Resolved (JString ''Preview started successfully''), Pending,
       Uncaught NullPointerException])"
  by (simp add: run_after_previewing livePreview_def run_previewing disconnectedEvent_def
        onDisconnected_def captureImage_def sendEvent_def call_def)

subsection \<open>Frames\<close>

text \<open>
  C3, as amended. Every frame the image reader announces with a non-null image produces
  exactly one \<open>USBCameraImageCaptured\<close> event, whether or not a capture was requested, so
  each frame of the repeating preview request produces one; no other call or callback
  (\<open>captureImage\<close> included) produces such an event, and a frame whose image is null
  produces none.
\<close>

theorem every_frame_is_an_image_event:
  "eventsNamed ''USBCameraImageCaptured'' (fst (step p a m)) =
     eventsNamed ''USBCameraImageCaptured'' m @
     (case a of OnImageAvailable (Some img) \<Rightarrow> [imageCapturedEvent img] | _ \<Rightarrow> [])"
proof (cases a)
  case (OnImageAvailable acquired)
  then show ?thesis
    by (cases acquired) (simp_all add: eventsNamed_def module_defs split: Image.split)
qed (simp_all add: eventsNamed_def module_defs split: option.split)

text \<open>
  C3 as stated fails: one \<open>captureImage\<close> in the running preview followed by two frames
  gives two image events, and a frame of the preview gives one without any capture.
\<close>

theorem one_capture_many_image_events:
  "eventsNamed ''USBCameraImageCaptured''
     (fst (run (previewing @
                  [CaptureImage, OnImageAvailable (Some (Image ''AA'')),
                   OnImageAvailable (Some (Image ''BB''))]) initial)) =
     [imageCapturedEvent (Image ''AA''), imageCapturedEvent (Image ''BB'')] \<and>
   eventsNamed ''USBCameraImageCaptured''
     (fst (run (previewing @ [OnImageAvailable (Some (Image ''AA''))]) initial)) =
     [imageCapturedEvent (Image ''AA'')]"
  by (simp add: run_after_previewing livePreview_def run_previewing eventsNamed_def normal_def
        module_defs split: prod.split)

subsection \<open>Disconnection\<close>

text \<open>
  C5, as amended. The disconnection callback sends exactly one \<open>disconnected\<close> event with
  the camera id, closes the camera handle it was given exactly once and clears the camera
  device field, and does nothing else: the image reader and the background thread stay as
  they were (only \<open>closeCamera\<close> releases them) and the promise is not touched.
\<close>

theorem disconnect_releases_camera_only:
  "events (fst (onDisconnected cameraId camera m)) = events m @ [disconnectedEvent cameraId] \<and>
   statusEvents ''disconnected'' (fst (onDisconnected cameraId camera m)) =
     statusEvents ''disconnected'' m @ [disconnectedEvent cameraId] \<and>
   calls (fst (onDisconnected cameraId camera m)) = calls m @ [CameraDevice_close camera] \<and>
   cameraDevice (fst (onDisconnected cameraId camera m)) = None \<and>
   imageReader (fst (onDisconnected cameraId camera m)) = imageReader m \<and>
   backgroundThread (fst (onDisconnected cameraId camera m)) = backgroundThread m \<and>
   snd (onDisconnected cameraId camera m) = Pending"
  by (simp add: onDisconnected_def disconnectedEvent_def statusEvents_def getKey_def
        sendEvent_def call_def)

text \<open>
  C5 as stated fails: after a disconnection in the running preview the image reader and
  the background thread are still held, nothing but the camera handle has been released,
  and a frame that was already queued still produces an image event.
\<close>

theorem disconnect_leaves_frame_sink:
  "run (previewing @
          [OnDisconnected ''cam-external-1'' (CameraDevice 1),
           OnImageAvailable (Some (Image ''AA''))]) initial =
     (livePreview
        \<lparr>cameraDevice := None,
          events := events livePreview @
            [disconnectedEvent ''cam-external-1'', imageCapturedEvent (Image ''AA'')],
          calls := calls livePreview @
            [CameraDevice_close (CameraDevice 1), Image_close (Image ''AA'')]\<rparr>,
      [Pending, Resolved (JString ''Camera opened successfully''), Pending,
       Resolved (JString ''Preview started successfully''), Pending, Pending]) \<and>
   imageReader livePreview = Some (ImageReader 1920 1080) \<and>
   backgroundThread livePreview = Some (HandlerThread 0)"
  by (simp add: run_after_previewing livePreview_def run_previewing disconnectedEvent_def
        normal_def module_defs)

subsection \<open>Starting the preview\<close>

text \<open>
  C6, as amended. \<open>startPreview\<close> rejects with \<open>NO_CAMERA\<close> whenever no camera is open,
  and changes nothing then. While a camera is open the requested resolution is not
  compared with anything: when no platform call throws, any width and height go to
  \<open>ImageReader.newInstance\<close> and to a new capture session, and the promise stays pending
  until the session callback.
\<close>

theorem preview_checks_camera_only:
  "(cameraDevice m = None \<longrightarrow>
      startPreview p width height m = (m, Rejected ''NO_CAMERA'' ''No camera is currently open'')) \<and>
   (cameraDevice m = Some device \<and> newInstanceThrows p = None \<and>
    createCaptureSessionThrows p = None \<longrightarrow>
      snd (startPreview p width height m) = Pending \<and>
      imageReader (fst (startPreview p width height m)) = Some (ImageReader width height) \<and>
      calls (fst (startPreview p width height m)) =
        calls m @
        [ImageReader_newInstance width height,
         ImageReader_setOnImageAvailableListener (ImageReader width height) (backgroundHandler m),
         CameraDevice_createCaptureSession device (ImageReader width height)
           (backgroundHandler m)])"
  by (simp add: startPreview_def call_def Let_def)

theorem preview_checks_camera_only_witness:
  "cameraDevice initial = None \<and>
   startPreview normal 1920 1080 initial =
     (initial, Rejected ''NO_CAMERA'' ''No camera is currently open'') \<and>
   cameraDevice (fst (run opened initial)) = Some (CameraDevice 1) \<and>
   newInstanceThrows normal = None \<and> createCaptureSessionThrows normal = None \<and>
   snd (startPreview normal 1920 1080 (fst (run opened initial))) = Pending \<and>
   imageReader (fst (startPreview normal 1920 1080 (fst (run opened initial)))) =
     Some (ImageReader 1920 1080)"
proof -
  have i: "cameraDevice initial = None"
    by (simp add: initial_def)
  have d: "cameraDevice (fst (run opened initial)) = Some (CameraDevice 1)"
    by (simp add: run_opened)
  have n: "newInstanceThrows normal = None" "createCaptureSessionThrows normal = None"
    by (simp_all add: normal_def)
  from preview_checks_camera_only [of initial normal 1920 1080] i
  have r1: "startPreview normal 1920 1080 initial =
     (initial, Rejected ''NO_CAMERA'' ''No camera is currently open'')"
    by blast
  from preview_checks_camera_only [of "fst (run opened initial)" normal 1920 1080 "CameraDevice 1"] d n
  have r2: "snd (startPreview normal 1920 1080 (fst (run opened initial))) = Pending \<and>
     imageReader (fst (startPreview normal 1920 1080 (fst (run opened initial)))) =
       Some (ImageReader 1920 1080)"
    by blast
  from i d n r1 r2 show ?thesis by blast
qed

text \<open>
  C6 as stated fails: the microscope lists 640x480 as its only resolution; with it open,
  \<open>startPreview(123, 45)\<close> is not rejected but creates the reader and asks for the session.
\<close>

theorem unsupported_resolution_accepted:
  "getKey ''resolutions'' (cameraInfo ''1'' microscope) =
     Some (JArray [JMap [(''width'', JInt 640), (''height'', JInt 480)]]) \<and>
   run [OpenCamera ''1'', OnOpened ''1'' (CameraDevice 1), StartPreview 123 45] initial =
     (\<lparr> cameraDevice = Some (CameraDevice 1), captureSession = None,
         imageReader = Some (ImageReader 123 45),
         backgroundThread = Some (HandlerThread 0),
         backgroundHandler = Some (Handler (HandlerThread 0)),
         events =
           [(''USBCameraEvent'',
             JMap [(''cameraId'', JString ''1''), (''status'', JString ''opened'')])],
         calls =
           [HandlerThread_start (HandlerThread 0),
            CameraManager_openCamera ''1'' (Some (Handler (HandlerThread 0))),
            ImageReader_newInstance 123 45,
            ImageReader_setOnImageAvailableListener (ImageReader 123 45)
              (Some (Handler (HandlerThread 0))),
            CameraDevice_createCaptureSession (CameraDevice 1) (ImageReader 123 45)
              (Some (Handler (HandlerThread 0)))],
         threads = 1 \<rparr>,
      [Pending, Resolved (JString ''Camera opened successfully''), Pending])"
  by (simp add: cameraInfo_resolutions resolutionsOf_def resolutionMap_def microscope_def
        initial_def normal_def module_defs)

end
